theory Spec2Isabelle
  imports Complex_Main
begin

section \<open>JavaScript values, strings and dates\<close>

text \<open>
  The backend is TypeScript on Node. A JavaScript \<^verbatim>\<open>number\<close> that carries a price, a
  quantity or an amount is modelled as an exact rational: the decimal literals of the
  source (\<^verbatim>\<open>0.20\<close>, \<^verbatim>\<open>0.02\<close>, \<^verbatim>\<open>0.03\<close>, \<^verbatim>\<open>0.01\<close>) are the fractions they denote, and
  the rounding of IEEE doubles, \<^verbatim>\<open>NaN\<close> and the infinities are outside the model.
  Counters and calendar fields are natural numbers.
\<close>

type_synonym number = rat

text \<open>
  The value of an entry of a request's \<^verbatim>\<open>options\<close> object (\<^verbatim>\<open>Record<string, any>\<close>), as far
  as a condition \<^verbatim>\<open>if (v)\<close> can tell values apart.
\<close>

datatype jsvalue = JUndefined | JNull | JBool bool | JNum number | JStr string | JObject

fun truthy :: "jsvalue \<Rightarrow> bool" where
  "truthy JUndefined = False"
| "truthy JNull = False"
| "truthy (JBool b) = b"
| "truthy (JNum n) = (n \<noteq> 0)"
| "truthy (JStr s) = (s \<noteq> [])"
| "truthy JObject = True"

text \<open>
  A plain object is the list of its own properties; reading a property that is not there
  gives \<^verbatim>\<open>undefined\<close>. Properties inherited from the prototype are not modelled.
\<close>

type_synonym jsobject = "(string \<times> jsvalue) list"

definition getProp :: "jsobject \<Rightarrow> string \<Rightarrow> jsvalue" where
  "getProp obj k = (case map_of obj k of None \<Rightarrow> JUndefined | Some v \<Rightarrow> v)"

text \<open>\<^verbatim>\<open>String(n)\<close> for a natural number, and \<^verbatim>\<open>s.padStart(n, c)\<close>.\<close>

definition digit_char :: "nat \<Rightarrow> char" where
  "digit_char d = ''0123456789'' ! d"

function String_nat :: "nat \<Rightarrow> string" where
  "String_nat n =
     (if n < 10 then [digit_char n] else String_nat (n div 10) @ [digit_char (n mod 10)])"
  by pat_completeness auto
termination
  by (relation "measure (\<lambda>n. n)") auto

declare String_nat.simps [simp del]

definition padStart :: "nat \<Rightarrow> char \<Rightarrow> string \<Rightarrow> string" where
  "padStart n c s = replicate (n - length s) c @ s"

text \<open>
  Points in time are milliseconds since the epoch. What a handler reads from the system
  clock is passed in: the instant of \<^verbatim>\<open>new Date()\<close> with its local calendar fields
  (\<^verbatim>\<open>getMonth\<close> counts from 0), the library's constructor \<^verbatim>\<open>new Date(y, m, d)\<close> for local
  midnight, and the identifier the database gives to the next inserted document.
\<close>

type_synonym timestamp = nat

record clock =
  nowMs :: timestamp
  getFullYear :: nat
  getMonth :: nat
  getDate :: nat
  newDate :: "nat \<Rightarrow> nat \<Rightarrow> nat \<Rightarrow> timestamp"
  newObjectId :: string

section \<open>Errors\<close>

text \<open>
  Every \<^verbatim>\<open>throw ApiError.xxx(message)\<close> of the modelled handlers is one constructor; the
  HTTP status is that of the factory method of \<^verbatim>\<open>ApiError\<close>. \<^verbatim>\<open>TypeError\<close> is the
  runtime's exception for reading a property of \<^verbatim>\<open>undefined\<close>.
\<close>

datatype api_error =
    ServiceNotFoundOrInactive string
  | InvalidQuantity string number number
  | OrderNotFound
  | OrderAccessForbidden
  | OrderNotDraftForbidden
  | PaymentNotFound
  | RefundAdminOnly
  | PaymentNotCompleted
  | RefundExceedsPayment
  | MvolaError string
  | MvolaRefundError string
  | TypeError

fun statusCode :: "api_error \<Rightarrow> nat" where
  "statusCode (ServiceNotFoundOrInactive _) = 400"
| "statusCode (InvalidQuantity _ _ _) = 400"
| "statusCode OrderNotFound = 404"
| "statusCode OrderAccessForbidden = 403"
| "statusCode OrderNotDraftForbidden = 403"
| "statusCode PaymentNotFound = 404"
| "statusCode RefundAdminOnly = 403"
| "statusCode PaymentNotCompleted = 400"
| "statusCode RefundExceedsPayment = 400"
| "statusCode (MvolaError _) = 400"
| "statusCode (MvolaRefundError _) = 400"
| "statusCode TypeError = 500"

section \<open>Service catalog and price calculation\<close>

record service_option =
  optionId :: string
  priceModifier :: number

record service =
  serviceId :: string
  serviceName :: string
  basePrice :: number
  options :: "service_option list"
  minQuantity :: number
  maxQuantity :: number
  isActive :: bool

text \<open>
  \<^verbatim>\<open>calculatePrice\<close> of \<^verbatim>\<open>service.model.ts\<close>: the loop over \<^verbatim>\<open>this.options\<close> with the running
  \<^verbatim>\<open>total\<close> (here \<open>tot\<close>). The argument \<^verbatim>\<open>selectedOptions\<close> may be \<^verbatim>\<open>undefined\<close> (\<open>None\<close>): the first
  iteration then throws, and a service without options never reads it.
\<close>

fun calculatePrice_loop :: "number \<Rightarrow> jsobject \<Rightarrow> service_option list \<Rightarrow> number \<Rightarrow> number" where
  "calculatePrice_loop quantity selectedOptions [] tot = tot"
| "calculatePrice_loop quantity selectedOptions (opt # rest) tot =
     calculatePrice_loop quantity selectedOptions rest
       (if truthy (getProp selectedOptions (optionId opt))
        then tot + priceModifier opt * quantity else tot)"

definition calculatePrice :: "service \<Rightarrow> number \<Rightarrow> jsobject option \<Rightarrow> api_error + number" where
  "calculatePrice svc quantity selectedOptions =
     (if options svc = [] then Inr (basePrice svc * quantity)
      else case selectedOptions of
             None \<Rightarrow> Inl TypeError
           | Some sel \<Rightarrow> Inr (calculatePrice_loop quantity sel (options svc) (basePrice svc * quantity)))"

section \<open>Orders\<close>

datatype order_status =
  Draft | Quote | Pending | Confirmed | InProduction | Ready | Shipped | Delivered | Cancelled

datatype priority = Low | Normal | High | Urgent

datatype role = Client | Admin | Employee

record user =
  userId :: string
  role :: role

text \<open>
  A line item as \<^verbatim>\<open>orderItemSchema\<close> stores it, and the order document with the fields the
  handlers below read or write (the addresses, the client snapshot and the document
  names are carried along unchanged by every handler and are left out). \<open>isNew\<close> is
  Mongoose's flag of a document that was never saved, \<open>createdAt\<close> the timestamp that
  \<^verbatim>\<open>timestamps: true\<close> sets when the document is inserted.
\<close>

record order_item =
  itemServiceId :: string
  itemService :: service
  itemQuantity :: number
  itemOptions :: jsobject
  unitPrice :: number
  itemTotalPrice :: number

record order =
  orderId :: string
  orderNumber :: "string option"
  clientId :: string
  items :: "order_item list"
  status :: order_status
  totalPrice :: number
  subtotal :: number
  taxAmount :: number
  discountAmount :: number
  shippingCost :: number
  orderNotes :: "string option"
  internalNotes :: "string option"
  confirmedAt :: "timestamp option"
  productionStartedAt :: "timestamp option"
  readyAt :: "timestamp option"
  shippedAt :: "timestamp option"
  deliveredAt :: "timestamp option"
  estimatedDeliveryDate :: "timestamp option"
  priority :: priority
  assignedTo :: "string option"
  createdAt :: "timestamp option"
  isNew :: bool

text \<open>A string that may be absent is truthy when it is there and not empty.\<close>

fun truthyStr :: "string option \<Rightarrow> bool" where
  "truthyStr None = False"
| "truthyStr (Some s) = (s \<noteq> [])"

subsection \<open>The methods of the order document\<close>

text \<open>\<^verbatim>\<open>calculateTotals\<close>: three assignments, each reading the fields set before it.\<close>

definition calculateTotals :: "order \<Rightarrow> order" where
  "calculateTotals this =
     (let this1 = this\<lparr>subtotal := foldl (\<lambda>sum item. sum + itemTotalPrice item) 0 (items this)\<rparr>;
          this2 = this1\<lparr>taxAmount := subtotal this1 * (20 / 100)\<rparr>
      in this2\<lparr>totalPrice := subtotal this2 + taxAmount this2 + shippingCost this2 - discountAmount this2\<rparr>)"

text \<open>
  \<^verbatim>\<open>countDocuments({ createdAt: { $gte: a, $lt: b } })\<close> on the collection, and
  \<^verbatim>\<open>generateOrderNumber\<close>.
\<close>

definition countDocuments :: "order list \<Rightarrow> timestamp \<Rightarrow> timestamp \<Rightarrow> nat" where
  "countDocuments db gte lt =
     length (filter (\<lambda>d. case createdAt d of None \<Rightarrow> False | Some t \<Rightarrow> gte \<le> t \<and> t < lt) db)"

definition generateOrderNumber :: "clock \<Rightarrow> order list \<Rightarrow> string" where
  "generateOrderNumber clk db =
     (let year = getFullYear clk;
          month = padStart 2 (CHR ''0'') (String_nat (getMonth clk + 1));
          day = padStart 2 (CHR ''0'') (String_nat (getDate clk));
          startOfDay = newDate clk year (getMonth clk) (getDate clk);
          endOfDay = newDate clk year (getMonth clk) (getDate clk + 1);
          cnt = countDocuments db startOfDay endOfDay;
          sequence = padStart 4 (CHR ''0'') (String_nat (cnt + 1))
      in ''PP'' @ String_nat year @ month @ day @ sequence)"

text \<open>
  \<^verbatim>\<open>save\<close>: the two \<^verbatim>\<open>pre('save')\<close> hooks in the order they are registered, then the write.
  A new document is inserted with its \<open>createdAt\<close>; a known one replaces the stored
  document of the same identifier.
\<close>

definition preSaveOrderNumber :: "clock \<Rightarrow> order list \<Rightarrow> order \<Rightarrow> order" where
  "preSaveOrderNumber clk db this =
     (if isNew this \<and> \<not> truthyStr (orderNumber this)
      then this\<lparr>orderNumber := Some (generateOrderNumber clk db)\<rparr> else this)"

definition writeOrder :: "clock \<Rightarrow> order \<Rightarrow> order list \<Rightarrow> order \<times> order list" where
  "writeOrder clk this db =
     (if isNew this
      then (let doc = this\<lparr>createdAt := Some (nowMs clk), isNew := False\<rparr> in (doc, db @ [doc]))
      else (this, map (\<lambda>d. if orderId d = orderId this then this else d) db))"

definition save :: "clock \<Rightarrow> order \<Rightarrow> order list \<Rightarrow> order \<times> order list" where
  "save clk this db = writeOrder clk (calculateTotals (preSaveOrderNumber clk db this)) db"

text \<open>\<^verbatim>\<open>updateStatus\<close>: the assignment, the \<^verbatim>\<open>switch\<close> on the new status, the save.\<close>

definition updateStatus :: "clock \<Rightarrow> order_status \<Rightarrow> order \<Rightarrow> order list \<Rightarrow> order \<times> order list" where
  "updateStatus clk newStatus this db =
     (let this1 = this\<lparr>status := newStatus\<rparr>;
          now = nowMs clk;
          this2 = (case newStatus of
                     Confirmed \<Rightarrow> this1\<lparr>confirmedAt := Some now\<rparr>
                   | InProduction \<Rightarrow> this1\<lparr>productionStartedAt := Some now\<rparr>
                   | Ready \<Rightarrow> this1\<lparr>readyAt := Some now\<rparr>
                   | Shipped \<Rightarrow> this1\<lparr>shippedAt := Some now\<rparr>
                   | Delivered \<Rightarrow> this1\<lparr>deliveredAt := Some now\<rparr>
                   | _ \<Rightarrow> this1)
      in save clk this2 db)"

subsection \<open>The order controller\<close>

record item_request =
  reqServiceId :: string
  reqQuantity :: number
  reqOptions :: "jsobject option"

record create_request =
  newItems :: "item_request list"
  newNotes :: "string option"
  newPriority :: "priority option"

record update_request =
  updItems :: "item_request list option"
  updNotes :: "string option"
  updInternalNotes :: "string option"
  updStatus :: "order_status option"
  updPriority :: "priority option"
  updAssignedTo :: "string option"
  updEstimatedDeliveryDate :: "timestamp option"

definition findService :: "service list \<Rightarrow> string \<Rightarrow> service option" where
  "findService catalog sid = find (\<lambda>s. serviceId s = sid) catalog"

definition findOrderById :: "order list \<Rightarrow> string \<Rightarrow> order option" where
  "findOrderById db oid = find (\<lambda>d. orderId d = oid) db"

text \<open>
  \<^verbatim>\<open>Promise.all(items.map(async (item) => ...))\<close>: the results in the order of the items, or
  the error of the first item that throws.
\<close>

fun mapItems :: "('a \<Rightarrow> api_error + 'b) \<Rightarrow> 'a list \<Rightarrow> api_error + 'b list" where
  "mapItems f [] = Inr []"
| "mapItems f (x # xs) =
     (case f x of
        Inl e \<Rightarrow> Inl e
      | Inr y \<Rightarrow> (case mapItems f xs of Inl e \<Rightarrow> Inl e | Inr ys \<Rightarrow> Inr (y # ys)))"

text \<open>The body of the \<^verbatim>\<open>items.map\<close> callback of \<^verbatim>\<open>createOrder\<close>.\<close>

definition createOrderItem :: "service list \<Rightarrow> item_request \<Rightarrow> api_error + order_item" where
  "createOrderItem catalog item =
     (case findService catalog (reqServiceId item) of
        None \<Rightarrow> Inl (ServiceNotFoundOrInactive (reqServiceId item))
      | Some svc \<Rightarrow>
          if \<not> isActive svc then Inl (ServiceNotFoundOrInactive (reqServiceId item))
          else if reqQuantity item < minQuantity svc \<or> reqQuantity item > maxQuantity svc
          then Inl (InvalidQuantity (serviceName svc) (minQuantity svc) (maxQuantity svc))
          else (case calculatePrice svc 1 (reqOptions item) of
                  Inl e \<Rightarrow> Inl e
                | Inr price \<Rightarrow>
                    Inr \<lparr>itemServiceId = serviceId svc, itemService = svc,
                         itemQuantity = reqQuantity item,
                         itemOptions = (case reqOptions item of None \<Rightarrow> [] | Some sel \<Rightarrow> sel),
                         unitPrice = price, itemTotalPrice = price * reqQuantity item\<rparr>))"

text \<open>The body of the \<^verbatim>\<open>items.map\<close> callback of \<^verbatim>\<open>updateOrder\<close>.\<close>

definition updateOrderItem :: "service list \<Rightarrow> item_request \<Rightarrow> api_error + order_item" where
  "updateOrderItem catalog item =
     (case findService catalog (reqServiceId item) of
        None \<Rightarrow> Inl (ServiceNotFoundOrInactive (reqServiceId item))
      | Some svc \<Rightarrow>
          if \<not> isActive svc then Inl (ServiceNotFoundOrInactive (reqServiceId item))
          else (case calculatePrice svc 1 (reqOptions item) of
                  Inl e \<Rightarrow> Inl e
                | Inr price \<Rightarrow>
                    Inr \<lparr>itemServiceId = serviceId svc, itemService = svc,
                         itemQuantity = reqQuantity item,
                         itemOptions = (case reqOptions item of None \<Rightarrow> [] | Some sel \<Rightarrow> sel),
                         unitPrice = price, itemTotalPrice = price * reqQuantity item\<rparr>))"

text \<open>
  \<^verbatim>\<open>createOrder\<close>: the items, then \<^verbatim>\<open>Order.create\<close> (a new document with the schema's
  defaults, saved). The result is the thrown error or the order of the 201 response,
  with the collection after the request.
\<close>

definition createOrder ::
  "service list \<Rightarrow> clock \<Rightarrow> user \<Rightarrow> create_request \<Rightarrow> order list \<Rightarrow> (api_error + order) \<times> order list" where
  "createOrder catalog clk usr req db =
     (case mapItems (createOrderItem catalog) (newItems req) of
        Inl e \<Rightarrow> (Inl e, db)
      | Inr orderItems \<Rightarrow>
          (let doc = \<lparr>orderId = newObjectId clk, orderNumber = None, clientId = userId usr,
                      items = orderItems, status = Draft, totalPrice = 0, subtotal = 0,
                      taxAmount = 0, discountAmount = 0, shippingCost = 0,
                      orderNotes = newNotes req, internalNotes = None,
                      confirmedAt = None, productionStartedAt = None, readyAt = None,
                      shippedAt = None, deliveredAt = None, estimatedDeliveryDate = None,
                      priority = (case newPriority req of None \<Rightarrow> Normal | Some p \<Rightarrow> p),
                      assignedTo = None, createdAt = None, isNew = True\<rparr>;
               saved = save clk doc db
           in (Inr (fst saved), snd saved)))"

text \<open>
  \<^verbatim>\<open>updateOrder\<close>, in the order of the source: the lookup, the permission checks of a
  client, the items (only for a client on a draft), the guarded field updates (the status
  through \<^verbatim>\<open>updateStatus\<close>, which saves), the final save.
\<close>

definition updateOrderItems :: "service list \<Rightarrow> user \<Rightarrow> update_request \<Rightarrow> order \<Rightarrow> api_error + order" where
  "updateOrderItems catalog usr req ord =
     (case updItems req of
        None \<Rightarrow> Inr ord
      | Some its \<Rightarrow>
          if role usr = Client \<and> status ord = Draft
          then (case mapItems (updateOrderItem catalog) its of
                  Inl e \<Rightarrow> Inl e
                | Inr orderItems \<Rightarrow> Inr (ord\<lparr>items := orderItems\<rparr>))
          else Inr ord)"

text \<open>The guarded assignments before, at and after the status, then the final save.\<close>

definition updateNotes :: "user \<Rightarrow> update_request \<Rightarrow> order \<Rightarrow> order" where
  "updateNotes usr req ord =
     (let o1 = (if truthyStr (updNotes req) then ord\<lparr>orderNotes := updNotes req\<rparr> else ord)
      in if truthyStr (updInternalNotes req) \<and> role usr \<noteq> Client
         then o1\<lparr>internalNotes := updInternalNotes req\<rparr> else o1)"

definition updateStatusField ::
  "clock \<Rightarrow> user \<Rightarrow> update_request \<Rightarrow> order \<Rightarrow> order list \<Rightarrow> order \<times> order list" where
  "updateStatusField clk usr req ord db =
     (case updStatus req of
        Some s \<Rightarrow> if role usr \<noteq> Client then updateStatus clk s ord db else (ord, db)
      | None \<Rightarrow> (ord, db))"

definition updateAssignment :: "user \<Rightarrow> update_request \<Rightarrow> order \<Rightarrow> order" where
  "updateAssignment usr req ord =
     (let o4 = (case updPriority req of
                  Some p \<Rightarrow> if role usr \<noteq> Client then ord\<lparr>priority := p\<rparr> else ord
                | None \<Rightarrow> ord);
          o5 = (if truthyStr (updAssignedTo req) \<and> role usr \<noteq> Client
                then o4\<lparr>assignedTo := updAssignedTo req\<rparr> else o4)
      in case updEstimatedDeliveryDate req of
           Some d \<Rightarrow> if role usr \<noteq> Client then o5\<lparr>estimatedDeliveryDate := Some d\<rparr> else o5
         | None \<Rightarrow> o5)"

definition updateOrderFields ::
  "clock \<Rightarrow> user \<Rightarrow> update_request \<Rightarrow> order \<Rightarrow> order list \<Rightarrow> order \<times> order list" where
  "updateOrderFields clk usr req ord db =
     (let stepped = updateStatusField clk usr req (updateNotes usr req ord) db
      in save clk (updateAssignment usr req (fst stepped)) (snd stepped))"

definition updateOrder ::
  "service list \<Rightarrow> clock \<Rightarrow> user \<Rightarrow> string \<Rightarrow> update_request \<Rightarrow> order list \<Rightarrow>
     (api_error + order) \<times> order list" where
  "updateOrder catalog clk usr oid req db =
     (case findOrderById db oid of
        None \<Rightarrow> (Inl OrderNotFound, db)
      | Some ord \<Rightarrow>
          if role usr = Client \<and> clientId ord \<noteq> userId usr then (Inl OrderAccessForbidden, db)
          else if role usr = Client \<and> status ord \<noteq> Draft then (Inl OrderNotDraftForbidden, db)
          else (case updateOrderItems catalog usr req ord of
                  Inl e \<Rightarrow> (Inl e, db)
                | Inr ord1 \<Rightarrow>
                    (let saved = updateOrderFields clk usr req ord1 db
                     in (Inr (fst saved), snd saved))))"

section \<open>Payments\<close>

datatype payment_method = Mvola | Card | Transfer | Cash | Check

datatype payment_status =
  PayPending | PayProcessing | PayCompleted | PayFailed | PayCancelled | PayRefunded

datatype payment_type = Full | Partial | Deposit | Installment

record fees =
  processingFee :: number
  platformFee :: number
  totalFees :: number

record refund =
  refundAmount :: number
  refundReason :: string
  refundedAt :: timestamp
  refundId :: string

record mvola_transaction =
  transactionId :: string
  phoneNumber :: string
  reference :: string
  transactionStatus :: string

record payment =
  paymentId :: string
  paymentNumber :: "string option"
  payOrderId :: string
  payClientId :: string
  amount :: number
  payMethod :: payment_method
  payStatus :: payment_status
  payType :: payment_type
  payFees :: fees
  refunds :: "refund list"
  mvolaTransaction :: "mvola_transaction option"
  payCreatedAt :: "timestamp option"
  payIsNew :: bool

text \<open>
  The mobile-money provider is reached over HTTP by \<^verbatim>\<open>mvolaService\<close>; its two calls are
  parameters. \<open>initiatePayment\<close> takes the amount, the phone number, the reference and
  the description and gives the transaction identifier with its status, or the message
  of the error it throws; \<open>refundTransaction\<close> (the service's own \<^verbatim>\<open>refundPayment\<close>) takes
  the transaction identifier, the amount and the reason.
\<close>

record mvola_service =
  initiatePayment :: "number \<Rightarrow> string \<Rightarrow> string \<Rightarrow> string \<Rightarrow> string + string \<times> string"
  refundTransaction :: "string \<Rightarrow> number \<Rightarrow> string \<Rightarrow> string + unit"


text \<open>The \<^verbatim>\<open>pre('save')\<close> hook of the payment schema and the write.\<close>

definition countPayments :: "payment list \<Rightarrow> timestamp \<Rightarrow> timestamp \<Rightarrow> nat" where
  "countPayments db gte lt =
     length (filter (\<lambda>d. case payCreatedAt d of None \<Rightarrow> False | Some t \<Rightarrow> gte \<le> t \<and> t < lt) db)"

definition preSavePaymentNumber :: "clock \<Rightarrow> payment list \<Rightarrow> payment \<Rightarrow> payment" where
  "preSavePaymentNumber clk db this =
     (if payIsNew this \<and> \<not> truthyStr (paymentNumber this)
      then (let year = getFullYear clk;
                month = padStart 2 (CHR ''0'') (String_nat (getMonth clk + 1));
                day = padStart 2 (CHR ''0'') (String_nat (getDate clk));
                cnt = countPayments db (newDate clk year (getMonth clk) (getDate clk))
                        (newDate clk year (getMonth clk) (getDate clk + 1));
                sequence = padStart 4 (CHR ''0'') (String_nat (cnt + 1))
            in this\<lparr>paymentNumber := Some (''PAY-'' @ String_nat year @ month @ day @ ''-'' @ sequence)\<rparr>)
      else this)"

definition savePayment :: "clock \<Rightarrow> payment \<Rightarrow> payment list \<Rightarrow> payment \<times> payment list" where
  "savePayment clk this db =
     (let this1 = preSavePaymentNumber clk db this
      in if payIsNew this1
         then (let doc = this1\<lparr>payCreatedAt := Some (nowMs clk), payIsNew := False\<rparr> in (doc, db @ [doc]))
         else (this1, map (\<lambda>d. if paymentId d = paymentId this1 then this1 else d) db))"

definition findPaymentById :: "payment list \<Rightarrow> string \<Rightarrow> payment option" where
  "findPaymentById db pid = find (\<lambda>d. paymentId d = pid) db"

subsection \<open>Creating a payment\<close>




subsection \<open>Refunding a payment\<close>

record refund_request =
  refReqAmount :: "number option"
  refReqReason :: string

text \<open>\<^verbatim>\<open>amount || payment.amount\<close>: the request's amount unless it is absent or falsy.\<close>

definition refundAmountOf :: "number option \<Rightarrow> payment \<Rightarrow> number" where
  "refundAmountOf requested pay =
     (case requested of None \<Rightarrow> amount pay | Some a \<Rightarrow> if a \<noteq> 0 then a else amount pay)"

text \<open>The provider is called only for a mobile-money payment that has a transaction.\<close>

definition refundAtProvider :: "mvola_service \<Rightarrow> payment \<Rightarrow> number \<Rightarrow> string \<Rightarrow> string + unit" where
  "refundAtProvider mvola pay amt reason =
     (if payMethod pay = Mvola
      then (case mvolaTransaction pay of
              Some tx \<Rightarrow> refundTransaction mvola (transactionId tx) amt reason
            | None \<Rightarrow> Inr ())
      else Inr ())"

definition totalRefunded :: "payment \<Rightarrow> number" where
  "totalRefunded pay = foldl (\<lambda>sum r. sum + refundAmount r) 0 (refunds pay)"

definition refundPayment ::
  "mvola_service \<Rightarrow> clock \<Rightarrow> user \<Rightarrow> string \<Rightarrow> refund_request \<Rightarrow> payment list \<Rightarrow>
     (api_error + payment) \<times> payment list" where
  "refundPayment mvola clk usr pid req db =
     (if role usr \<noteq> Admin then (Inl RefundAdminOnly, db)
      else case findPaymentById db pid of
        None \<Rightarrow> (Inl PaymentNotFound, db)
      | Some pay \<Rightarrow>
          if payStatus pay \<noteq> PayCompleted then (Inl PaymentNotCompleted, db)
          else
            (let amt = refundAmountOf (refReqAmount req) pay
             in if amt > amount pay then (Inl RefundExceedsPayment, db)
                else (case refundAtProvider mvola pay amt (refReqReason req) of
                        Inl msg \<Rightarrow> (Inl (MvolaRefundError msg), db)
                      | Inr _ \<Rightarrow>
                          (let pay1 = pay\<lparr>refunds := refunds pay @
                                            [\<lparr>refundAmount = amt, refundReason = refReqReason req,
                                              refundedAt = nowMs clk,
                                              refundId = ''REF-'' @ String_nat (nowMs clk)\<rparr>]\<rparr>;
                               pay2 = (if totalRefunded pay1 \<ge> amount pay1
                                       then pay1\<lparr>payStatus := PayRefunded\<rparr> else pay1);
                               saved = savePayment clk pay2 db
                           in (Inr (fst saved), snd saved)))))"

section \<open>File validation\<close>

datatype issue_type = Warning | Error

datatype severity = SeverityLow | SeverityMedium | SeverityHigh

text \<open>
  The messages and recommendations of \<^verbatim>\<open>validateFile\<close> are fixed French sentences, two of
  them with a value interpolated; each is one constructor.
\<close>

datatype issue_message =
    FileTooLarge
  | LowResolution number
  | VerySmallDimensions
  | UnsupportedFormat string
  | ValidationFailed

datatype recommendation = CompressFile | UseAtLeast300Dpi | ConvertToCMYK

record issue =
  issueType :: issue_type
  message :: issue_message
  issueSeverity :: severity

record validation_result =
  isValid :: bool
  issues :: "issue list"
  recommendations :: "recommendation list"

text \<open>
  What \<^verbatim>\<open>sharp(filePath).metadata()\<close> reports, as far as the validation reads it, and what
  the file system and the libraries answer for one \<^verbatim>\<open>filePath\<close>: the size of
  \<^verbatim>\<open>fs.statSync\<close>, the metadata (\<open>None\<close> where the call throws) and \<^verbatim>\<open>path.extname\<close>.
\<close>

record image_metadata =
  density :: "number option"
  width :: "number option"
  height :: "number option"
  space :: "string option"

record file_probe =
  statSize :: "nat option"
  sharpMetadata :: "image_metadata option"
  extname :: string

definition supportedImages :: "string list" where
  "supportedImages = [''.jpg'', ''.jpeg'', ''.png'', ''.gif'', ''.bmp'', ''.tiff'', ''.tif'']"

definition supportedDocuments :: "string list" where
  "supportedDocuments = [''.pdf'', ''.ai'', ''.eps'', ''.psd'', ''.indd'']"

definition supportedVectors :: "string list" where
  "supportedVectors = [''.svg'', ''.ai'', ''.eps'']"

definition allSupportedFormats :: "string list" where
  "allSupportedFormats = supportedImages @ supportedDocuments @ supportedVectors"

text \<open>\<^verbatim>\<open>toLowerCase\<close> on the ASCII letters, and \<^verbatim>\<open>mimetype.startsWith('image/')\<close>.\<close>

definition lowerChar :: "char \<Rightarrow> char" where
  "lowerChar c =
     (case map_of (zip ''ABCDEFGHIJKLMNOPQRSTUVWXYZ'' ''abcdefghijklmnopqrstuvwxyz'') c of
        Some l \<Rightarrow> l
      | None \<Rightarrow> c)"

definition toLowerCase :: "string \<Rightarrow> string" where
  "toLowerCase s = map lowerChar s"

definition isImageMimetype :: "string \<Rightarrow> bool" where
  "isImageMimetype mimetype = (take 6 mimetype = ''image/'')"

definition pushIssue :: "issue \<Rightarrow> validation_result \<Rightarrow> validation_result" where
  "pushIssue i result = result\<lparr>issues := issues result @ [i]\<rparr>"

definition pushRecommendation :: "recommendation \<Rightarrow> validation_result \<Rightarrow> validation_result" where
  "pushRecommendation r result = result\<lparr>recommendations := recommendations result @ [r]\<rparr>"

text \<open>The checks on an image, after its metadata is read: resolution, dimensions, colour space.\<close>

definition validateImage :: "image_metadata \<Rightarrow> validation_result \<Rightarrow> validation_result" where
  "validateImage md result =
     (let r1 = (case density md of
                  Some d \<Rightarrow>
                    if d \<noteq> 0 \<and> d < 150
                    then pushRecommendation UseAtLeast300Dpi
                           (pushIssue \<lparr>issueType = Warning, message = LowResolution d,
                                       issueSeverity = SeverityHigh\<rparr> result)
                    else result
                | None \<Rightarrow> result);
          r2 = (case (width md, height md) of
                  (Some w, Some h) \<Rightarrow>
                    if w \<noteq> 0 \<and> h \<noteq> 0 \<and> (w < 300 \<or> h < 300)
                    then pushIssue \<lparr>issueType = Warning, message = VerySmallDimensions,
                                    issueSeverity = SeverityMedium\<rparr> r1
                    else r1
                | _ \<Rightarrow> r1)
      in if space md = Some ''srgb'' then pushRecommendation ConvertToCMYK r2 else r2)"

text \<open>The \<^verbatim>\<open>catch\<close> block: whatever was collected so far, marked invalid, plus an error.\<close>

definition validationCatch :: "validation_result \<Rightarrow> validation_result" where
  "validationCatch result =
     pushIssue \<lparr>issueType = Error, message = ValidationFailed, issueSeverity = SeverityHigh\<rparr>
       (result\<lparr>isValid := False\<rparr>)"

text \<open>The end of the \<^verbatim>\<open>try\<close> block: the supported formats and the verdict.\<close>

definition validateFormat :: "string \<Rightarrow> validation_result \<Rightarrow> validation_result" where
  "validateFormat ext result =
     (let r1 = (if ext \<notin> set allSupportedFormats
                then (pushIssue \<lparr>issueType = Error, message = UnsupportedFormat ext,
                                  issueSeverity = SeverityHigh\<rparr> result)\<lparr>isValid := False\<rparr>
                else result);
          hasErrors = list_ex (\<lambda>i. issueType i = Error) (issues r1)
      in r1\<lparr>isValid := \<not> hasErrors\<rparr>)"

definition validateFile :: "file_probe \<Rightarrow> string \<Rightarrow> validation_result" where
  "validateFile probe mimetype =
     (let result = \<lparr>isValid = True, issues = [], recommendations = []\<rparr>
      in case statSize probe of
           None \<Rightarrow> validationCatch result
         | Some sz \<Rightarrow>
             (let r1 = (if sz > 100 * 1024 * 1024
                        then pushRecommendation CompressFile
                               (pushIssue \<lparr>issueType = Warning, message = FileTooLarge,
                                           issueSeverity = SeverityMedium\<rparr> result)
                        else result)
              in if isImageMimetype mimetype
                 then (case sharpMetadata probe of
                         None \<Rightarrow> validationCatch r1
                       | Some md \<Rightarrow> validateFormat (toLowerCase (extname probe)) (validateImage md r1))
                 else validateFormat (toLowerCase (extname probe)) r1))"

section \<open>Example data\<close>

text \<open>
  A small catalog, two users and two instants of one day, used to run the handlers on
  concrete requests. \<open>exNewDate\<close> stands in for the library's date constructor (with
  months of 31 days): it is monotone in the day, which is all the handlers rely on.
\<close>

definition exNewDate :: "nat \<Rightarrow> nat \<Rightarrow> nat \<Rightarrow> timestamp" where
  "exNewDate y m d = ((y * 12 + m) * 31 + d) * 86400000"

definition exClock :: clock where
  "exClock = \<lparr>nowMs = 65054311200000, getFullYear = 2024, getMonth = 0, getDate = 15,
              newDate = exNewDate, newObjectId = ''o1''\<rparr>"

definition exClockLater :: clock where
  "exClockLater = exClock\<lparr>nowMs := 65054314800000, newObjectId := ''o2''\<rparr>"

definition exService :: service where
  "exService = \<lparr>serviceId = ''svc1'', serviceName = ''Flyers A5'', basePrice = 50,
                options = [\<lparr>optionId = ''recto_verso'', priceModifier = 10\<rparr>,
                           \<lparr>optionId = ''pelliculage'', priceModifier = 5\<rparr>],
                minQuantity = 100, maxQuantity = 10000, isActive = True\<rparr>"

definition exClient :: user where
  "exClient = \<lparr>userId = ''u1'', role = Client\<rparr>"

definition exAdmin :: user where
  "exAdmin = \<lparr>userId = ''a1'', role = Admin\<rparr>"



definition exDraftOrder :: order where
  "exDraftOrder =
     \<lparr>orderId = ''o1'', orderNumber = Some ''PP202401150001'', clientId = ''u1'',
      items = [\<lparr>itemServiceId = ''svc1'', itemService = exService, itemQuantity = 500,
                itemOptions = [], unitPrice = 50, itemTotalPrice = 25000\<rparr>],
      status = Draft, totalPrice = 30000, subtotal = 25000, taxAmount = 5000,
      discountAmount = 0, shippingCost = 0, orderNotes = None, internalNotes = None,
      confirmedAt = None, productionStartedAt = None, readyAt = None, shippedAt = None,
      deliveredAt = None, estimatedDeliveryDate = None, priority = Normal,
      assignedTo = None, createdAt = Some 65054311200000, isNew = False\<rparr>"

definition exNoUpdate :: update_request where
  "exNoUpdate = \<lparr>updItems = None, updNotes = None, updInternalNotes = None, updStatus = None,
                 updPriority = None, updAssignedTo = None, updEstimatedDeliveryDate = None\<rparr>"

text \<open>The draft order confirmed by an administrator, and confirmed again an hour later.\<close>

definition exConfirmedOnce :: "order \<times> order list" where
  "exConfirmedOnce = updateStatus exClock Confirmed exDraftOrder [exDraftOrder]"

definition exConfirmedTwice :: "order \<times> order list" where
  "exConfirmedTwice = updateStatus exClockLater Confirmed (fst exConfirmedOnce) (snd exConfirmedOnce)"



definition exItem50 :: item_request where
  "exItem50 = \<lparr>reqServiceId = ''svc1'', reqQuantity = 50, reqOptions = Some []\<rparr>"

definition exEditQuantity50 :: update_request where
  "exEditQuantity50 = exNoUpdate\<lparr>updItems := Some [exItem50]\<rparr>"

definition exStatusRequest :: update_request where
  "exStatusRequest = exNoUpdate\<lparr>updStatus := Some Shipped\<rparr>"

text \<open>
  A provider that accepts every call, a card payment of 25000 as created and then
  completed, and refunds of it.
\<close>

definition exMvola :: mvola_service where
  "exMvola = \<lparr>initiatePayment = (\<lambda>amt phone ref descr. Inr (''tx1'', ''PENDING'')),
              refundTransaction = (\<lambda>tid amt reason. Inr ())\<rparr>"


definition exPayment :: payment where
  "exPayment =
     \<lparr>paymentId = ''p1'', paymentNumber = Some ''PAY-20240115-0001'', payOrderId = ''o1'',
      payClientId = ''u1'', amount = 25000, payMethod = Card, payStatus = PayCompleted,
      payType = Full,
      payFees = \<lparr>processingFee = 750, platformFee = 250, totalFees = 1000\<rparr>,
      refunds = [], mvolaTransaction = None, payCreatedAt = Some 65054311200000,
      payIsNew = False\<rparr>"

definition exRefund15000 :: refund_request where
  "exRefund15000 = \<lparr>refReqAmount = Some 15000, refReqReason = ''annulation''\<rparr>"

definition exRefundedOnce :: "(api_error + payment) \<times> payment list" where
  "exRefundedOnce = refundPayment exMvola exClock exAdmin ''p1'' exRefund15000 [exPayment]"

definition exRefundedTwice :: "(api_error + payment) \<times> payment list" where
  "exRefundedTwice =
     refundPayment exMvola exClockLater exAdmin ''p1'' exRefund15000 (snd exRefundedOnce)"



definition exFirstRefund :: payment where
  "exFirstRefund = exPayment\<lparr>refunds :=
     [\<lparr>refundAmount = 15000, refundReason = ''annulation'', refundedAt = nowMs exClock,
       refundId = ''REF-'' @ String_nat (nowMs exClock)\<rparr>]\<rparr>"

text \<open>An upload of 2 KB with the extension \<^verbatim>\<open>.EXE\<close>.\<close>

definition exProbe :: file_probe where
  "exProbe = \<lparr>statSize = Some 2048, sharpMetadata = None, extname = ''.EXE''\<rparr>"





section \<open>Notions of the specification\<close>


text \<open>The totals of an order agree with its line items, its discount and its shipping cost.\<close>

definition orderTotalsInv :: "order \<Rightarrow> bool" where
  "orderTotalsInv d \<longleftrightarrow>
     subtotal d = sum_list (map itemTotalPrice (items d)) \<and>
     taxAmount d = subtotal d * (20 / 100) \<and>
     totalPrice d = subtotal d + taxAmount d - discountAmount d + shippingCost d"


text \<open>The issues of type error in a validation result.\<close>

definition errorIssues :: "validation_result \<Rightarrow> issue list" where
  "errorIssues r = filter (\<lambda>i. issueType i = Error) (issues r)"






section \<open>Pricing\<close>







text \<open>
  The calculation needs the object: an item without \<^verbatim>\<open>options\<close>, for a service that has
  options, ends \<^verbatim>\<open>createOrder\<close> with the runtime's error, since the handler passes
  \<^verbatim>\<open>item.options\<close> on as it is.
\<close>

lemma createOrderItem_without_options:
  assumes "findService catalog (reqServiceId item) = Some svc" and "isActive svc"
    and "minQuantity svc \<le> reqQuantity item" and "reqQuantity item \<le> maxQuantity svc"
    and "options svc \<noteq> []" and "reqOptions item = None"
  shows "createOrderItem catalog item = Inl TypeError"
  using assms by (simp add: createOrderItem_def calculatePrice_def)

section \<open>Order totals\<close>

lemma foldl_plus_sum_list:
  "foldl (\<lambda>sum x. sum + f x) a xs = a + sum_list (map f xs)" for a :: rat
  by (induction xs arbitrary: a) (simp_all add: add.assoc)

lemma calculateTotals_inv: "orderTotalsInv (calculateTotals this)"
  by (simp add: calculateTotals_def orderTotalsInv_def Let_def foldl_plus_sum_list)

lemma calculateTotals_frame:
  "items (calculateTotals this) = items this"
  "status (calculateTotals this) = status this"
  "orderNumber (calculateTotals this) = orderNumber this"
  "discountAmount (calculateTotals this) = discountAmount this"
  "shippingCost (calculateTotals this) = shippingCost this"
  "isNew (calculateTotals this) = isNew this"
  "orderId (calculateTotals this) = orderId this"
  "confirmedAt (calculateTotals this) = confirmedAt this"
  "productionStartedAt (calculateTotals this) = productionStartedAt this"
  "readyAt (calculateTotals this) = readyAt this"
  "shippedAt (calculateTotals this) = shippedAt this"
  "deliveredAt (calculateTotals this) = deliveredAt this"
  by (simp_all add: calculateTotals_def Let_def)

lemma orderTotalsInv_cong:
  "orderTotalsInv (d\<lparr>createdAt := c, isNew := b\<rparr>) = orderTotalsInv d"
  by (simp add: orderTotalsInv_def)

lemma writeOrder_inv:
  "orderTotalsInv this \<Longrightarrow> orderTotalsInv (fst (writeOrder clk this db))"
  by (simp add: writeOrder_def Let_def orderTotalsInv_cong)


lemma save_inv: "orderTotalsInv (fst (save clk this db))"
  by (simp add: save_def writeOrder_inv calculateTotals_inv)


lemma updateStatus_inv: "orderTotalsInv (fst (updateStatus clk s this db))"
  by (simp add: updateStatus_def Let_def save_inv)









lemma save_frame:
  "items (fst (save clk this db)) = items this"
  "status (fst (save clk this db)) = status this"
  "orderId (fst (save clk this db)) = orderId this"
  "discountAmount (fst (save clk this db)) = discountAmount this"
  "shippingCost (fst (save clk this db)) = shippingCost this"
  "confirmedAt (fst (save clk this db)) = confirmedAt this"
  "productionStartedAt (fst (save clk this db)) = productionStartedAt this"
  "readyAt (fst (save clk this db)) = readyAt this"
  "shippedAt (fst (save clk this db)) = shippedAt this"
  "deliveredAt (fst (save clk this db)) = deliveredAt this"
  by (simp_all add: save_def writeOrder_def preSaveOrderNumber_def Let_def calculateTotals_frame)







section \<open>Status timestamps\<close>

lemma updateStatus_fields:
  "status (fst (updateStatus clk s this db)) = s"
  "confirmedAt (fst (updateStatus clk s this db)) = (if s = Confirmed then Some (nowMs clk) else confirmedAt this)"
  "productionStartedAt (fst (updateStatus clk s this db)) =
     (if s = InProduction then Some (nowMs clk) else productionStartedAt this)"
  "readyAt (fst (updateStatus clk s this db)) = (if s = Ready then Some (nowMs clk) else readyAt this)"
  "shippedAt (fst (updateStatus clk s this db)) = (if s = Shipped then Some (nowMs clk) else shippedAt this)"
  "deliveredAt (fst (updateStatus clk s this db)) = (if s = Delivered then Some (nowMs clk) else deliveredAt this)"
  by (cases s; simp add: updateStatus_def Let_def save_frame)+

text \<open>
  Claim C4, refuted as stated: the draft order is confirmed, and confirmed again an hour
  later; the second transition replaces the recorded \<open>confirmedAt\<close>.
\<close>

theorem confirmedAt_overwritten:
  "confirmedAt (fst exConfirmedOnce) = Some 65054311200000 \<and>
   confirmedAt (fst exConfirmedTwice) = Some 65054314800000 \<and>
   confirmedAt (fst exConfirmedTwice) \<noteq> confirmedAt (fst exConfirmedOnce)"
  by (simp add: exConfirmedOnce_def exConfirmedTwice_def updateStatus_fields exClock_def exClockLater_def)

text \<open>
  Claim C4, amended. Every transition sets the status and stamps the timestamp field of
  the new status, if it has one, with the current instant, whether or not the field was
  set before; the four other timestamp fields keep their values.
\<close>

theorem updateStatus_stamps_current_time:
  "status (fst (updateStatus clk s this db)) = s
   \<and> confirmedAt (fst (updateStatus clk s this db)) =
        (if s = Confirmed then Some (nowMs clk) else confirmedAt this)
   \<and> productionStartedAt (fst (updateStatus clk s this db)) =
        (if s = InProduction then Some (nowMs clk) else productionStartedAt this)
   \<and> readyAt (fst (updateStatus clk s this db)) =
        (if s = Ready then Some (nowMs clk) else readyAt this)
   \<and> shippedAt (fst (updateStatus clk s this db)) =
        (if s = Shipped then Some (nowMs clk) else shippedAt this)
   \<and> deliveredAt (fst (updateStatus clk s this db)) =
        (if s = Delivered then Some (nowMs clk) else deliveredAt this)"
  by (simp only: updateStatus_fields)

theorem updateStatus_stamps_current_time_witness:
  "status (fst exConfirmedTwice) = Confirmed
   \<and> confirmedAt (fst exConfirmedTwice) = Some (nowMs exClockLater)
   \<and> shippedAt (fst exConfirmedTwice) = shippedAt (fst exConfirmedOnce)"
  using updateStatus_stamps_current_time [of exClockLater Confirmed "fst exConfirmedOnce" "snd exConfirmedOnce"]
  by (simp add: exConfirmedTwice_def)

section \<open>Quantity bounds and the permissions of a client\<close>

lemma save_owner:
  "clientId (fst (save clk this db)) = clientId this"
  by (simp add: save_def writeOrder_def preSaveOrderNumber_def Let_def calculateTotals_def)

lemma save_existing:
  "\<not> isNew this \<Longrightarrow>
     snd (save clk this db) =
       map (\<lambda>d. if orderId d = orderId this then fst (save clk this db) else d) db"
  by (simp add: save_def writeOrder_def preSaveOrderNumber_def Let_def calculateTotals_frame)

lemma updateStatus_owner:
  "clientId (fst (updateStatus clk s this db)) = clientId this"
  "orderId (fst (updateStatus clk s this db)) = orderId this"
  by (cases s; simp add: updateStatus_def Let_def save_owner save_frame)+

lemma exConfirmedOnce_db: "snd exConfirmedOnce = [fst exConfirmedOnce]"
proof -
  have "snd (updateStatus clk s this [this]) = [fst (updateStatus clk s this [this])]"
    if "\<not> isNew this" for clk s this
    using that by (cases s; simp add: updateStatus_def Let_def save_existing)
  then show ?thesis
    by (simp add: exConfirmedOnce_def exDraftOrder_def)
qed

lemma exConfirmedOnce_found: "findOrderById (snd exConfirmedOnce) ''o1'' = Some (fst exConfirmedOnce)"
proof -
  have "orderId (fst exConfirmedOnce) = ''o1''"
    by (simp add: exConfirmedOnce_def updateStatus_owner exDraftOrder_def)
  then show ?thesis
    by (simp add: exConfirmedOnce_db findOrderById_def)
qed

lemma exConfirmedOnce_fields:
  "clientId (fst exConfirmedOnce) = ''u1''" "status (fst exConfirmedOnce) = Confirmed"
  by (simp_all add: exConfirmedOnce_def updateStatus_owner updateStatus_fields exDraftOrder_def)

text \<open>\<^verbatim>\<open>createOrder\<close> turns every quantity outside the bounds of an active service away.\<close>

lemma createOrderItem_rejects_quantity:
  assumes "findService catalog (reqServiceId item) = Some svc" "isActive svc"
    and "reqQuantity item < minQuantity svc \<or> reqQuantity item > maxQuantity svc"
  shows "createOrderItem catalog item =
           Inl (InvalidQuantity (serviceName svc) (minQuantity svc) (maxQuantity svc))"
  using assms by (auto simp: createOrderItem_def)

lemma exDraftOrder_found: "findOrderById [exDraftOrder] ''o1'' = Some exDraftOrder"
  by (simp add: findOrderById_def exDraftOrder_def)

lemma updateOrderFields_items:
  "items (fst (updateOrderFields clk usr req ord db)) = items ord"
proof -
  have a: "items (updateAssignment usr req x) = items x" for x
    by (simp add: updateAssignment_def Let_def split: option.splits)
  have n: "items (updateNotes usr req x) = items x" for x
    by (simp add: updateNotes_def Let_def)
  have s: "items (fst (updateStatusField clk usr req x db)) = items x" for x
    by (simp add: updateStatusField_def updateStatus_def Let_def save_frame
          split: option.splits order_status.splits)
  show ?thesis
    by (simp add: updateOrderFields_def Let_def save_frame a n s)
qed

text \<open>
  Claim C5, on the code: \<^verbatim>\<open>createOrder\<close> rejects a quantity of 50 for a service whose minimum
  is 100, and \<^verbatim>\<open>updateOrder\<close> accepts the same item on a draft order and prices it.
\<close>

theorem updateOrder_accepts_quantity_below_minimum:
  "fst (createOrder [exService] exClock exClient
          \<lparr>newItems = [exItem50], newNotes = None, newPriority = None\<rparr> [])
     = Inl (InvalidQuantity ''Flyers A5'' 100 10000)
   \<and> map_sum id (map itemQuantity \<circ> items)
        (fst (updateOrder [exService] exClockLater exClient ''o1'' exEditQuantity50 [exDraftOrder]))
     = Inr [50]
   \<and> map_sum id (map itemTotalPrice \<circ> items)
        (fst (updateOrder [exService] exClockLater exClient ''o1'' exEditQuantity50 [exDraftOrder]))
     = Inr [2500]"
proof -
  have c: "createOrderItem [exService] exItem50 = Inl (InvalidQuantity ''Flyers A5'' 100 10000)"
    by (simp add: createOrderItem_def findService_def exService_def exItem50_def)
  have u: "updateOrderItems [exService] exClient exEditQuantity50 exDraftOrder =
      Inr (exDraftOrder\<lparr>items := [\<lparr>itemServiceId = ''svc1'', itemService = exService,
             itemQuantity = 50, itemOptions = [], unitPrice = 50, itemTotalPrice = 2500\<rparr>]\<rparr>)"
    by (simp add: updateOrderItems_def exEditQuantity50_def exNoUpdate_def exClient_def
          exDraftOrder_def updateOrderItem_def findService_def exService_def calculatePrice_def
          exItem50_def getProp_def)
  have o: "clientId exDraftOrder = userId exClient" "status exDraftOrder = Draft"
    by (simp_all add: exDraftOrder_def exClient_def)
  show ?thesis
    by (simp add: createOrder_def c updateOrder_def exDraftOrder_found o u Let_def
          updateOrderFields_items)
qed

text \<open>
  Claim C6, refuted as stated: the owning client sends a status for the order that an
  administrator has confirmed; the request fails with status code 403.
\<close>

theorem client_update_of_confirmed_order_fails:
  "updateOrder [exService] exClockLater exClient ''o1'' exStatusRequest (snd exConfirmedOnce)
     = (Inl OrderNotDraftForbidden, snd exConfirmedOnce)
   \<and> statusCode OrderNotDraftForbidden = 403"
  by (simp add: updateOrder_def exConfirmedOnce_found exConfirmedOnce_fields exClient_def)

text \<open>
  Claim C6, amended. An update request of the owning client on an order that is not a
  draft, with or without a status value, is rejected as forbidden, and the collection,
  with the order and its status, is as before.
\<close>

theorem client_update_of_non_draft_order_rejected:
  assumes "role usr = Client" and "findOrderById db oid = Some ord"
    and "clientId ord = userId usr" and "status ord \<noteq> Draft"
  shows "updateOrder catalog clk usr oid req db = (Inl OrderNotDraftForbidden, db)
         \<and> statusCode OrderNotDraftForbidden = 403
         \<and> findOrderById (snd (updateOrder catalog clk usr oid req db)) oid = Some ord"
  using assms by (simp add: updateOrder_def)

theorem client_update_of_non_draft_order_rejected_witness:
  "role exClient = Client
   \<and> findOrderById (snd exConfirmedOnce) ''o1'' = Some (fst exConfirmedOnce)
   \<and> clientId (fst exConfirmedOnce) = userId exClient
   \<and> status (fst exConfirmedOnce) \<noteq> Draft
   \<and> updateOrder [exService] exClockLater exClient ''o1'' exStatusRequest (snd exConfirmedOnce)
        = (Inl OrderNotDraftForbidden, snd exConfirmedOnce)"
proof -
  have r: "role exClient = Client" and c: "clientId (fst exConfirmedOnce) = userId exClient"
    and s: "status (fst exConfirmedOnce) \<noteq> Draft"
    by (simp_all add: exClient_def exConfirmedOnce_fields)
  from client_update_of_non_draft_order_rejected [OF r exConfirmedOnce_found c s] r c s
  show ?thesis
    by (simp add: exConfirmedOnce_found)
qed

text \<open>
  On a draft order the status value of the owning client is ignored and the request goes
  through, as the test \<^verbatim>\<open>should not update order status by client\<close> expects.
\<close>

lemma client_status_ignored_on_draft:
  assumes "role usr = Client" and "findOrderById db oid = Some ord"
    and "clientId ord = userId usr" and "status ord = Draft" and "updItems req = None"
  shows "\<exists>doc. fst (updateOrder catalog clk usr oid req db) = Inr doc \<and> status doc = Draft"
proof -
  have a: "status (updateAssignment usr req x) = status x" for x
    by (simp add: updateAssignment_def Let_def split: option.splits)
  have n: "status (updateNotes usr req x) = status x" for x
    by (simp add: updateNotes_def Let_def)
  have s: "status (fst (updateStatusField clk usr req x db)) = status x" for x
    using assms(1) by (simp add: updateStatusField_def split: option.splits)
  have "status (fst (updateOrderFields clk usr req ord db)) = Draft"
    by (simp add: updateOrderFields_def Let_def save_frame a n s assms(4))
  then show ?thesis
    using assms by (simp add: updateOrder_def updateOrderItems_def Let_def)
qed

section \<open>Payment fees\<close>

lemma preSavePaymentNumber_frame:
  "amount (preSavePaymentNumber clk db this) = amount this"
  "payMethod (preSavePaymentNumber clk db this) = payMethod this"
  "payFees (preSavePaymentNumber clk db this) = payFees this"
  "refunds (preSavePaymentNumber clk db this) = refunds this"
  "payStatus (preSavePaymentNumber clk db this) = payStatus this"
  "paymentId (preSavePaymentNumber clk db this) = paymentId this"
  "payIsNew (preSavePaymentNumber clk db this) = payIsNew this"
  by (simp_all add: preSavePaymentNumber_def Let_def)

lemma savePayment_frame:
  "amount (fst (savePayment clk this db)) = amount this"
  "payMethod (fst (savePayment clk this db)) = payMethod this"
  "payFees (fst (savePayment clk this db)) = payFees this"
  "refunds (fst (savePayment clk this db)) = refunds this"
  "payStatus (fst (savePayment clk this db)) = payStatus this"
  "paymentId (fst (savePayment clk this db)) = paymentId this"
  "payIsNew (fst (savePayment clk this db)) = False"
  by (simp_all add: savePayment_def Let_def preSavePaymentNumber_frame)

lemma savePayment_existing:
  "\<not> payIsNew this \<Longrightarrow>
     savePayment clk this db = (this, map (\<lambda>d. if paymentId d = paymentId this then this else d) db)"
  by (simp add: savePayment_def Let_def preSavePaymentNumber_def)








section \<open>Refunds\<close>

lemma totalRefunded_push:
  "totalRefunded (pay\<lparr>refunds := refunds pay @ [r]\<rparr>) = totalRefunded pay + refundAmount r"
  by (simp add: totalRefunded_def)

lemma refundPayment_accepted:
  assumes "role usr = Admin" and "findPaymentById db pid = Some pay"
    and "payStatus pay = PayCompleted"
    and "refundAmountOf (refReqAmount req) pay \<le> amount pay"
    and "refundAtProvider mvola pay (refundAmountOf (refReqAmount req) pay) (refReqReason req) = Inr u"
  shows "\<exists>doc. fst (refundPayment mvola clk usr pid req db) = Inr doc
           \<and> refunds doc = refunds pay @
                 [\<lparr>refundAmount = refundAmountOf (refReqAmount req) pay,
                   refundReason = refReqReason req, refundedAt = nowMs clk,
                   refundId = ''REF-'' @ String_nat (nowMs clk)\<rparr>]
           \<and> amount doc = amount pay
           \<and> payStatus doc =
                (if totalRefunded pay + refundAmountOf (refReqAmount req) pay \<ge> amount pay
                 then PayRefunded else PayCompleted)"
  using assms
  by (simp add: refundPayment_def Let_def savePayment_frame totalRefunded_push)

text \<open>
  An accepted refund leaves the payment marked refunded exactly when the refunds recorded
  so far, the new one included, add up to the amount of the payment or more.
\<close>

lemma refund_status_iff_total_reached:
  assumes "role usr = Admin" and "findPaymentById db pid = Some pay"
    and "payStatus pay = PayCompleted"
    and "fst (refundPayment mvola clk usr pid req db) = Inr doc"
  shows "payStatus doc = PayRefunded \<longleftrightarrow> totalRefunded doc \<ge> amount doc"
proof -
  let ?amt = "refundAmountOf (refReqAmount req) pay"
  from assms have le: "?amt \<le> amount pay"
    by (auto simp: refundPayment_def Let_def split: if_splits)
  from assms le obtain u where "refundAtProvider mvola pay ?amt (refReqReason req) = Inr u"
    by (cases "refundAtProvider mvola pay ?amt (refReqReason req)")
       (auto simp: refundPayment_def Let_def)
  from refundPayment_accepted [OF assms(1-3) le this, of clk] assms(4)
  show ?thesis
    by (auto simp: totalRefunded_def)
qed

lemma exPayment_found: "findPaymentById [exPayment] ''p1'' = Some exPayment"
  by (simp add: findPaymentById_def exPayment_def)

lemma exProvider: "refundAtProvider exMvola pay amt reason = Inr ()"
  by (simp add: refundAtProvider_def exMvola_def split: option.splits)

lemma exRefundedOnce_eq: "exRefundedOnce = (Inr exFirstRefund, [exFirstRefund])"
  by (simp add: exRefundedOnce_def refundPayment_def exAdmin_def exPayment_found Let_def
        exProvider savePayment_existing totalRefunded_def)
     (simp add: exPayment_def exRefund15000_def refundAmountOf_def exFirstRefund_def
        savePayment_def preSavePaymentNumber_def Let_def)

lemma exFirstRefund_found: "findPaymentById [exFirstRefund] ''p1'' = Some exFirstRefund"
  by (simp add: findPaymentById_def exFirstRefund_def exPayment_def)

text \<open>
  Claim C3, on the code: a completed card payment of 25000 is refunded 15000 twice. Each
  request passes the check against the payment's amount; after the first the payment is
  still completed, after the second the recorded refunds add up to 30000.
\<close>

theorem refunds_exceed_payment_amount:
  "map_sum id payStatus (fst exRefundedOnce) = Inr PayCompleted
   \<and> map_sum id totalRefunded (fst exRefundedOnce) = Inr 15000
   \<and> map_sum id amount (fst exRefundedTwice) = Inr 25000
   \<and> map_sum id totalRefunded (fst exRefundedTwice) = Inr 30000
   \<and> map_sum id payStatus (fst exRefundedTwice) = Inr PayRefunded"
proof -
  have one: "payStatus exFirstRefund = PayCompleted" "totalRefunded exFirstRefund = 15000"
    "amount exFirstRefund = 25000" "refundAmountOf (refReqAmount exRefund15000) exFirstRefund = 15000"
    by (simp_all add: exFirstRefund_def exPayment_def totalRefunded_def refundAmountOf_def
          exRefund15000_def)
  have adm: "role exAdmin = Admin"
    by (simp add: exAdmin_def)
  have le: "refundAmountOf (refReqAmount exRefund15000) exFirstRefund \<le> amount exFirstRefund"
    by (simp add: one)
  have two: "exRefundedTwice =
      refundPayment exMvola exClockLater exAdmin ''p1'' exRefund15000 [exFirstRefund]"
    by (simp add: exRefundedTwice_def exRefundedOnce_eq)
  from refundPayment_accepted [OF adm exFirstRefund_found one(1) le exProvider, of exClockLater]
  obtain doc where d: "fst exRefundedTwice = Inr doc"
    and r: "refunds doc = refunds exFirstRefund @
                 [\<lparr>refundAmount = refundAmountOf (refReqAmount exRefund15000) exFirstRefund,
                   refundReason = refReqReason exRefund15000, refundedAt = nowMs exClockLater,
                   refundId = ''REF-'' @ String_nat (nowMs exClockLater)\<rparr>]"
    and a: "amount doc = amount exFirstRefund"
    and st: "payStatus doc =
                (if totalRefunded exFirstRefund + refundAmountOf (refReqAmount exRefund15000) exFirstRefund
                      \<ge> amount exFirstRefund
                 then PayRefunded else PayCompleted)"
    unfolding two by blast
  have "totalRefunded doc = totalRefunded exFirstRefund + 15000"
    by (simp add: totalRefunded_def r one(4))
  then have t: "totalRefunded doc = 30000"
    by (simp add: one)
  from st have s2: "payStatus doc = PayRefunded"
    by (simp add: one)
  from a have a2: "amount doc = 25000"
    by (simp only: one)
  show ?thesis
    by (simp add: exRefundedOnce_eq one d t s2 a2)
qed



section \<open>Validation verdict\<close>

lemma errorIssues_catch:
  "errorIssues (validationCatch r) \<noteq> []" "\<not> isValid (validationCatch r)"
  by (simp_all add: errorIssues_def validationCatch_def pushIssue_def)

lemma errorIssues_format:
  "isValid (validateFormat ext r) \<longleftrightarrow> errorIssues (validateFormat ext r) = []"
  "ext \<notin> set allSupportedFormats \<Longrightarrow> errorIssues (validateFormat ext r) \<noteq> []"
  by (simp_all add: errorIssues_def validateFormat_def pushIssue_def Let_def list_ex_iff
        filter_empty_conv)

text \<open>
  Claim C9. The result of \<^verbatim>\<open>validateFile\<close> is valid exactly when its issue list has no
  issue of type error, and a lower-cased extension outside the supported formats always
  puts an error into the list, so the file is invalid.
\<close>

theorem validateFile_valid_iff_no_error:
  "(isValid (validateFile probe mimetype) \<longleftrightarrow> errorIssues (validateFile probe mimetype) = [])
   \<and> (toLowerCase (extname probe) \<notin> set allSupportedFormats \<longrightarrow>
        errorIssues (validateFile probe mimetype) \<noteq> [] \<and> \<not> isValid (validateFile probe mimetype))"
proof -
  have a: "isValid (validateFile probe mimetype) \<longleftrightarrow> errorIssues (validateFile probe mimetype) = []"
    by (simp add: validateFile_def Let_def errorIssues_catch errorIssues_format
          split: option.splits)
  have "errorIssues (validateFile probe mimetype) \<noteq> []"
    if "toLowerCase (extname probe) \<notin> set allSupportedFormats"
    using that
    by (simp add: validateFile_def Let_def errorIssues_catch errorIssues_format
          split: option.splits)
  with a show ?thesis
    by simp
qed

lemma lower_exe: "toLowerCase ''.EXE'' = ''.exe''"
  by (simp add: toLowerCase_def lowerChar_def)

theorem validateFile_valid_iff_no_error_witness:
  "toLowerCase (extname exProbe) = ''.exe''
   \<and> ''.exe'' \<notin> set allSupportedFormats
   \<and> errorIssues (validateFile exProbe ''application/octet-stream'') =
       [\<lparr>issueType = Error, message = UnsupportedFormat ''.exe'', issueSeverity = SeverityHigh\<rparr>]
   \<and> \<not> isValid (validateFile exProbe ''application/octet-stream'')"
proof -
  have l: "toLowerCase (extname exProbe) = ''.exe''"
    by (simp add: exProbe_def lower_exe)
  have u: "''.exe'' \<notin> set allSupportedFormats"
    by (simp add: allSupportedFormats_def supportedImages_def supportedDocuments_def
          supportedVectors_def)
  have e: "errorIssues (validateFile exProbe ''application/octet-stream'') =
       [\<lparr>issueType = Error, message = UnsupportedFormat ''.exe'', issueSeverity = SeverityHigh\<rparr>]"
    using u
    by (simp add: validateFile_def Let_def isImageMimetype_def exProbe_def lower_exe
          validateFormat_def pushIssue_def errorIssues_def)
  from validateFile_valid_iff_no_error [of exProbe "''application/octet-stream''"] l u e
  show ?thesis
    by simp
qed

section \<open>Order numbers\<close>






















end
